theory Spec2Isabelle
  imports Complex_Main "HOL-Library.AList"
begin

section \<open>Python values and library boundary\<close>

text \<open>
  The module \<^verbatim>\<open>2_infer.py\<close> works on Python strings and on the values that
  \<^verbatim>\<open>json.loads\<close> returns. A Python string is modelled as a \<^typ>\<open>string\<close>
  whose characters are the code points below 256; the integers are unbounded
  (\<^typ>\<open>int\<close>); a float is the exact rational value of the double, or one of the
  four special values; a dict is an association list in insertion order.
\<close>

datatype pyfloat = Finite rat | NegZero | PosInf | NegInf | NaN

datatype json =
    JNull
  | JBool bool
  | JInt int
  | JFloat pyfloat
  | JStr string
  | JList "json list"
  | JDict "(string \<times> json) list"

text \<open>The exceptions that can leave the functions of the module.\<close>

datatype pyerr = AttributeError | KeyError | IndexError | ValueError | TypeError | OverflowError

text \<open>
  Two library functions are parameters of the model: \<^verbatim>\<open>json.loads\<close>, which returns a
  value or raises \<^verbatim>\<open>JSONDecodeError\<close> (the value \<open>None\<close> here), and \<^verbatim>\<open>repr\<close> of
  a float, list or dict, which \<^verbatim>\<open>str\<close> falls back on.
\<close>

record pylib =
  loads :: "string \<Rightarrow> json option"
  repr :: "json \<Rightarrow> string"

subsection \<open>Exceptions as values\<close>

definition bind_err :: "pyerr + 'a \<Rightarrow> ('a \<Rightarrow> pyerr + 'b) \<Rightarrow> pyerr + 'b" where
  "bind_err m f = (case m of Inl e \<Rightarrow> Inl e | Inr x \<Rightarrow> f x)"

text \<open>A list comprehension: the elements are evaluated in order, the first exception leaves it.\<close>

fun map_err :: "('a \<Rightarrow> pyerr + 'b) \<Rightarrow> 'a list \<Rightarrow> pyerr + 'b list" where
  "map_err f [] = Inr []"
| "map_err f (x # xs) =
     (case f x of Inl e \<Rightarrow> Inl e
      | Inr y \<Rightarrow> (case map_err f xs of Inl e \<Rightarrow> Inl e | Inr ys \<Rightarrow> Inr (y # ys)))"

subsection \<open>Characters\<close>

definition py_isspace :: "char \<Rightarrow> bool" where
  "py_isspace c = (let n = (of_char c :: nat) in
     (9 \<le> n \<and> n \<le> 13) \<or> (28 \<le> n \<and> n \<le> 32) \<or> n = 133 \<or> n = 160)"

definition py_isdigit :: "char \<Rightarrow> bool" where
  "py_isdigit c = (let n = (of_char c :: nat) in 48 \<le> n \<and> n \<le> 57)"

definition digit_val :: "char \<Rightarrow> int" where
  "digit_val c = int (of_char c) - 48"

definition py_lower_char :: "char \<Rightarrow> char" where
  "py_lower_char c = (let n = (of_char c :: nat) in
     if (65 \<le> n \<and> n \<le> 90) \<or> (192 \<le> n \<and> n \<le> 222 \<and> n \<noteq> 215) then char_of (n + 32) else c)"

definition py_lower :: "string \<Rightarrow> string" where
  "py_lower s = map py_lower_char s"

subsection \<open>The builtins \<^verbatim>\<open>int\<close> and \<^verbatim>\<open>str\<close>\<close>

definition dec_value :: "string \<Rightarrow> int" where
  "dec_value ds = foldl (\<lambda>acc c. 10 * acc + digit_val c) 0 ds"

text \<open>
  The digits of an integer literal: digits with single underscores between them.
\<close>

fun int_digits :: "string \<Rightarrow> bool" where
  "int_digits [] = False"
| "int_digits [c] = py_isdigit c"
| "int_digits (c # d # cs) =
     (py_isdigit c \<and> (if d = CHR ''_'' then int_digits cs else int_digits (d # cs)))"

definition py_strip :: "string \<Rightarrow> string" where
  "py_strip s = rev (dropWhile py_isspace (rev (dropWhile py_isspace s)))"

text \<open>
  \<^verbatim>\<open>int(s)\<close> for a string: \<open>None\<close> is \<^verbatim>\<open>ValueError\<close>. The limit that an
  interpreter may put on the number of digits is not part of the model.
\<close>

definition int_of_str :: "string \<Rightarrow> int option" where
  "int_of_str s =
     (case py_strip s of
        [] \<Rightarrow> None
      | c # cs \<Rightarrow>
          if c = CHR ''-'' then
            (if int_digits cs then Some (- dec_value (filter (\<lambda>x. x \<noteq> CHR ''_'') cs)) else None)
          else if c = CHR ''+'' then
            (if int_digits cs then Some (dec_value (filter (\<lambda>x. x \<noteq> CHR ''_'') cs)) else None)
          else
            (if int_digits (c # cs) then Some (dec_value (filter (\<lambda>x. x \<noteq> CHR ''_'') (c # cs)))
             else None))"

definition trunc_rat :: "rat \<Rightarrow> int" where
  "trunc_rat q = (if q < 0 then - \<lfloor>- q\<rfloor> else \<lfloor>q\<rfloor>)"

fun py_int :: "json \<Rightarrow> pyerr + int" where
  "py_int (JInt n) = Inr n"
| "py_int (JBool b) = Inr (if b then 1 else 0)"
| "py_int (JFloat (Finite q)) = Inr (trunc_rat q)"
| "py_int (JFloat NegZero) = Inr 0"
| "py_int (JFloat NaN) = Inl ValueError"
| "py_int (JFloat _) = Inl OverflowError"
| "py_int (JStr s) = (case int_of_str s of None \<Rightarrow> Inl ValueError | Some n \<Rightarrow> Inr n)"
| "py_int _ = Inl TypeError"

function dec_nat :: "nat \<Rightarrow> string" where
  "dec_nat n = (if n < 10 then [char_of (48 + n)] else dec_nat (n div 10) @ [char_of (48 + n mod 10)])"
  by pat_completeness auto
termination
  by (relation "measure id") auto

definition dec_int :: "int \<Rightarrow> string" where
  "dec_int i = (if i < 0 then CHR ''-'' # dec_nat (nat (- i)) else dec_nat (nat i))"

fun py_str :: "pylib \<Rightarrow> json \<Rightarrow> string" where
  "py_str lib (JStr s) = s"
| "py_str lib (JInt n) = dec_int n"
| "py_str lib (JBool b) = (if b then ''True'' else ''False'')"
| "py_str lib JNull = ''None''"
| "py_str lib v = repr lib v"

subsection \<open>Subscripts, \<^verbatim>\<open>in\<close>, \<^verbatim>\<open>get\<close>\<close>

text \<open>\<^verbatim>\<open>v[i]\<close> for a non-negative integer \<open>i\<close>.\<close>

fun py_index :: "json \<Rightarrow> nat \<Rightarrow> pyerr + json" where
  "py_index (JList xs) i = (if i < length xs then Inr (xs ! i) else Inl IndexError)"
| "py_index (JStr s) i = (if i < length s then Inr (JStr [s ! i]) else Inl IndexError)"
| "py_index (JDict d) i = Inl KeyError"
| "py_index _ i = Inl TypeError"

text \<open>\<^verbatim>\<open>v[k]\<close> for a string \<open>k\<close>.\<close>

fun py_item :: "json \<Rightarrow> string \<Rightarrow> pyerr + json" where
  "py_item (JDict d) k = (case map_of d k of None \<Rightarrow> Inl KeyError | Some v \<Rightarrow> Inr v)"
| "py_item _ k = Inl TypeError"

fun is_infix :: "string \<Rightarrow> string \<Rightarrow> bool" where
  "is_infix k [] = (k = [])"
| "is_infix k (c # cs) = (take (length k) (c # cs) = k \<or> is_infix k cs)"

text \<open>\<^verbatim>\<open>k in v\<close> for a string \<open>k\<close>.\<close>

fun py_in :: "string \<Rightarrow> json \<Rightarrow> pyerr + bool" where
  "py_in k (JDict d) = Inr (k \<in> set (map fst d))"
| "py_in k (JList xs) = Inr (JStr k \<in> set xs)"
| "py_in k (JStr s) = Inr (is_infix k s)"
| "py_in k _ = Inl TypeError"

text \<open>\<^verbatim>\<open>v.get(k, default)\<close>: only a dict has the method.\<close>

fun py_get :: "json \<Rightarrow> string \<Rightarrow> json \<Rightarrow> pyerr + json" where
  "py_get (JDict d) k dflt = Inr (case map_of d k of None \<Rightarrow> dflt | Some v \<Rightarrow> v)"
| "py_get _ k dflt = Inl AttributeError"

section \<open>Regular expressions\<close>

text \<open>
  The patterns of the module are sequences of character classes, each taken once,
  optionally, or repeated greedily, with capture groups that are not nested. The matcher
  is the backtracking matcher of \<^verbatim>\<open>re\<close> on this fragment: a greedy item takes a
  character first and gives it back when the rest of the pattern fails.
\<close>

datatype cclass =
    Lit char
  | OneOf string
  | NoneOf string
  | Space
  | NonSpace
  | Digit
  | Either cclass cclass

fun cmatch :: "cclass \<Rightarrow> char \<Rightarrow> bool" where
  "cmatch (Lit a) c = (c = a)"
| "cmatch (OneOf as) c = (c \<in> set as)"
| "cmatch (NoneOf as) c = (c \<notin> set as)"
| "cmatch Space c = py_isspace c"
| "cmatch NonSpace c = (\<not> py_isspace c)"
| "cmatch Digit c = py_isdigit c"
| "cmatch (Either a b) c = (cmatch a c \<or> cmatch b c)"

datatype quant = Once | Opt | Star | Plus

datatype instr = Atom cclass quant | GOpen | GClose

type_synonym regex = "instr list"

text \<open>
  \<open>run r s st caps\<close> matches \<open>r\<close> at the start of \<open>s\<close>: \<open>st\<close> holds, for each open group,
  the input where the group began, \<open>caps\<close> the groups closed so far. The result is the
  captured groups and the input left after the match.
\<close>

fun run :: "regex \<Rightarrow> string \<Rightarrow> string list \<Rightarrow> string list \<Rightarrow> (string list \<times> string) option" where
  "run [] s st caps = Some (caps, s)"
| "run (GOpen # r) s st caps = run r s (s # st) caps"
| "run (GClose # r) s [] caps = None"
| "run (GClose # r) s (b # st) caps = run r s st (caps @ [take (length b - length s) b])"
| "run (Atom c Once # r) [] st caps = None"
| "run (Atom c Once # r) (x # xs) st caps = (if cmatch c x then run r xs st caps else None)"
| "run (Atom c Opt # r) [] st caps = run r [] st caps"
| "run (Atom c Opt # r) (x # xs) st caps =
     (if cmatch c x then
        (case run r xs st caps of Some m \<Rightarrow> Some m | None \<Rightarrow> run r (x # xs) st caps)
      else run r (x # xs) st caps)"
| "run (Atom c Star # r) [] st caps = run r [] st caps"
| "run (Atom c Star # r) (x # xs) st caps =
     (if cmatch c x then
        (case run (Atom c Star # r) xs st caps of Some m \<Rightarrow> Some m
         | None \<Rightarrow> run r (x # xs) st caps)
      else run r (x # xs) st caps)"
| "run (Atom c Plus # r) [] st caps = None"
| "run (Atom c Plus # r) (x # xs) st caps =
     (if cmatch c x then run (Atom c Star # r) xs st caps else None)"

text \<open>\<^verbatim>\<open>re.search\<close>: the match at the leftmost position that has one; its groups.\<close>

fun search :: "regex \<Rightarrow> string \<Rightarrow> string list option" where
  "search r [] = map_option fst (run r [] [] [])"
| "search r (x # xs) =
     (case run r (x # xs) [] [] of Some m \<Rightarrow> Some (fst m) | None \<Rightarrow> search r xs)"

text \<open>
  \<^verbatim>\<open>re.findall\<close>: the groups of the successive matches, left to right, without overlap.
  \<open>k\<close> is the number of characters still covered by the previous match.
\<close>

fun findall_from :: "regex \<Rightarrow> string \<Rightarrow> nat \<Rightarrow> string list list" where
  "findall_from r [] k =
     (if k = 0 then (case run r [] [] [] of Some m \<Rightarrow> [fst m] | None \<Rightarrow> []) else [])"
| "findall_from r (x # xs) k =
     (if 0 < k then findall_from r xs (k - 1)
      else (case run r (x # xs) [] [] of
              None \<Rightarrow> findall_from r xs 0
            | Some m \<Rightarrow> fst m # findall_from r xs (length xs - length (snd m))))"

definition findall :: "regex \<Rightarrow> string \<Rightarrow> string list list" where
  "findall r s = findall_from r s 0"

subsection \<open>The patterns of the module\<close>

definition dq :: char where
  "dq = CHR 0x22"

definition sq :: char where
  "sq = CHR 0x27"

definition lits :: "string \<Rightarrow> regex" where
  "lits s = map (\<lambda>c. Atom (Lit c) Once) s"

definition quote_opt :: instr where
  "quote_opt = Atom (OneOf [dq, sq]) Opt"

definition word_group :: regex where
  "word_group = [GOpen, Atom (NoneOf [dq, sq, CHR '','']) Plus, GClose]"

definition score_group :: regex where
  "score_group = [GOpen, Atom (Lit CHR ''-'') Opt, Atom Digit Plus, GClose]"

definition spaces :: instr where
  "spaces = Atom Space Star"

text \<open>\<^verbatim>\<open>\([\"\']?([^\"\',]+)[\"\']?,\s*(-?\d+)\)\<close>\<close>

definition tuple_paren :: regex where
  "tuple_paren =
     lits ''('' @ [quote_opt] @ word_group @ [quote_opt] @ lits '','' @ [spaces]
     @ score_group @ lits '')''"

text \<open>\<^verbatim>\<open>\[[\"\']?([^\"\',]+)[\"\']?,\s*(-?\d+)\]\<close>\<close>

definition tuple_bracket :: regex where
  "tuple_bracket =
     lits ''['' @ [quote_opt] @ word_group @ [quote_opt] @ lits '','' @ [spaces]
     @ score_group @ lits '']''"

text \<open>
  \<^verbatim>\<open>{\s*[\"\']?word[\"\']?\s*:\s*[\"\']?([^\"\',]+)[\"\']?\s*,\s*[\"\']?score[\"\']?\s*:\s*(-?\d+)\s*}\<close>
\<close>

definition word_score_object :: regex where
  "word_score_object =
     lits ''{'' @ [spaces, quote_opt] @ lits ''word'' @ [quote_opt, spaces] @ lits '':''
     @ [spaces, quote_opt] @ word_group @ [quote_opt, spaces] @ lits '','' @ [spaces, quote_opt]
     @ lits ''score'' @ [quote_opt, spaces] @ lits '':'' @ [spaces] @ score_group
     @ [spaces] @ lits ''}''"

text \<open>\<^verbatim>\<open>"textual_feedback"\s*:\s*"([^"]*)"\<close>\<close>

definition feedback_pattern :: regex where
  "feedback_pattern =
     lits (dq # ''textual_feedback'' @ [dq]) @ [spaces] @ lits '':'' @ [spaces] @ lits [dq]
     @ [GOpen, Atom (NoneOf [dq]) Star, GClose] @ lits [dq]"

text \<open>\<^verbatim>\<open>(-?\d+)\<close>\<close>

definition signed_int_pattern :: regex where
  "signed_int_pattern = score_group"

text \<open>\<^verbatim>\<open>({[\s\S]*})\<close>\<close>

definition json_object_pattern :: regex where
  "json_object_pattern =
     [GOpen] @ lits ''{'' @ [Atom (Either Space NonSpace) Star] @ lits ''}'' @ [GClose]"

text \<open>\<^verbatim>\<open>match.group(i)\<close> for \<open>i \<ge> 1\<close>.\<close>

definition group :: "string list \<Rightarrow> nat \<Rightarrow> pyerr + string" where
  "group m i = (if 1 \<le> i \<and> i \<le> length m then Inr (m ! (i - 1)) else Inl IndexError)"

section \<open>The response parser\<close>

type_synonym word_scores = "(json \<times> json) list"

text \<open>Lines 121 to 129.\<close>

definition extract_textual_feedback :: "pylib \<Rightarrow> string \<Rightarrow> pyerr + json" where
  "extract_textual_feedback lib response =
     (case loads lib response of
        Some response_dict \<Rightarrow> py_get response_dict ''textual_feedback'' (JStr [])
      | None \<Rightarrow>
          (case search feedback_pattern response of
             Some m \<Rightarrow> bind_err (group m 1) (\<lambda>g. Inr (JStr g))
           | None \<Rightarrow> Inr (JStr [])))"

text \<open>
  \<^verbatim>\<open>[(word, int(score)) for word, score in tuples]\<close>: an element of \<^verbatim>\<open>tuples\<close> is
  the list of the groups of one match.
\<close>

fun pair_of_match :: "string list \<Rightarrow> pyerr + (json \<times> json)" where
  "pair_of_match [word, score] = bind_err (py_int (JStr score)) (\<lambda>n. Inr (JStr word, JInt n))"
| "pair_of_match _ = Inl ValueError"

text \<open>Lines 143 and 145: \<^verbatim>\<open>[(item["word"], int(item[key])) for item in word_score_list]\<close>.\<close>

definition keyed_pairs :: "string \<Rightarrow> json list \<Rightarrow> pyerr + word_scores" where
  "keyed_pairs key word_score_list =
     map_err (\<lambda>item.
        bind_err (py_item item ''word'') (\<lambda>w.
        bind_err (py_item item key) (\<lambda>sc.
        bind_err (py_int sc) (\<lambda>n. Inr (w, JInt n))))) word_score_list"

text \<open>Line 147: \<^verbatim>\<open>[(str(item[0]), int(item[1])) for item in word_score_list]\<close>.\<close>

definition indexed_pairs :: "pylib \<Rightarrow> json list \<Rightarrow> pyerr + word_scores" where
  "indexed_pairs lib word_score_list =
     map_err (\<lambda>item.
        bind_err (py_index item 0) (\<lambda>w.
        bind_err (py_index item 1) (\<lambda>sc.
        bind_err (py_int sc) (\<lambda>n. Inr (JStr (py_str lib w), JInt n))))) word_score_list"

text \<open>
  Lines 156 to 161 and 169 to 174: a score that is a string is converted with
  \<^verbatim>\<open>int\<close>; on \<^verbatim>\<open>ValueError\<close> the first match of \<^verbatim>\<open>(-?\d+)\<close> in it is
  converted, and the score is 0 when there is none. Any other score is kept as it is.
\<close>

definition lenient_score :: "json \<Rightarrow> pyerr + json" where
  "lenient_score score =
     (case score of
        JStr t \<Rightarrow>
          (case int_of_str t of
             Some n \<Rightarrow> Inr (JInt n)
           | None \<Rightarrow>
               (case search signed_int_pattern t of
                  Some m \<Rightarrow>
                    bind_err (group m 1) (\<lambda>g. bind_err (py_int (JStr g)) (\<lambda>n. Inr (JInt n)))
                | None \<Rightarrow> Inr (JInt 0)))
      | _ \<Rightarrow> Inr score)"

text \<open>\<^verbatim>\<open>next((k for k in item.keys() if k.lower() in names), None)\<close>\<close>

definition find_key :: "string list \<Rightarrow> (string \<times> json) list \<Rightarrow> string option" where
  "find_key names item = List.find (\<lambda>k. py_lower k \<in> set names) (map fst item)"

text \<open>Lines 152 to 175: what one item adds to \<^verbatim>\<open>result\<close>.\<close>

definition fallback_item :: "pylib \<Rightarrow> json \<Rightarrow> pyerr + word_scores" where
  "fallback_item lib item =
     (case item of
        JList xs \<Rightarrow>
          if 2 \<le> length xs then
            bind_err (py_index item 0) (\<lambda>w.
            bind_err (py_index item 1) (\<lambda>sc.
            bind_err (lenient_score sc) (\<lambda>score. Inr [(JStr (py_str lib w), score)])))
          else Inr []
      | JDict d \<Rightarrow>
          if 2 \<le> length d then
            (case (find_key [''word'', ''token''] d, find_key [''score'', ''value''] d) of
               (Some word_key, Some score_key) \<Rightarrow>
                 if word_key \<noteq> [] \<and> score_key \<noteq> [] then
                   bind_err (py_item item word_key) (\<lambda>w.
                   bind_err (py_item item score_key) (\<lambda>sc.
                   bind_err (lenient_score sc) (\<lambda>score. Inr [(JStr (py_str lib w), score)])))
                 else Inr []
             | _ \<Rightarrow> Inr [])
          else Inr []
      | _ \<Rightarrow> Inr [])"

text \<open>Lines 150 to 176.\<close>

definition fallback_scan :: "pylib \<Rightarrow> json list \<Rightarrow> pyerr + word_scores" where
  "fallback_scan lib word_score_list =
     bind_err (map_err (fallback_item lib) word_score_list) (\<lambda>rs. Inr (concat rs))"

definition has_key :: "string \<Rightarrow> (string \<times> json) list \<Rightarrow> bool" where
  "has_key k d = (k \<in> set (map fst d))"

text \<open>Lines 135 to 178: the body of the \<^verbatim>\<open>try\<close>, after \<^verbatim>\<open>json.loads\<close> has returned.\<close>

definition scores_of_value :: "pylib \<Rightarrow> json \<Rightarrow> pyerr + word_scores" where
  "scores_of_value lib response_dict =
     bind_err (py_get response_dict ''word_score_list'' (JList [])) (\<lambda>word_score_list.
       case word_score_list of
         JStr t \<Rightarrow> map_err pair_of_match (findall tuple_paren t)
       | JList items \<Rightarrow>
           (case items of
              JDict first # _ \<Rightarrow>
                if has_key ''word'' first \<and> has_key ''score'' first then keyed_pairs ''score'' items
                else if has_key ''word'' first \<and> has_key ''Score'' first then keyed_pairs ''Score'' items
                else fallback_scan lib items
            | JList _ # _ \<Rightarrow> indexed_pairs lib items
            | _ \<Rightarrow> fallback_scan lib items)
       | _ \<Rightarrow> Inr [])"

text \<open>Lines 186 to 189: the first pattern that finds something decides.\<close>

fun scan_patterns :: "regex list \<Rightarrow> string \<Rightarrow> (pyerr + word_scores) option" where
  "scan_patterns [] response = None"
| "scan_patterns (pattern # patterns) response =
     (let tuples = findall pattern response
      in if tuples \<noteq> [] then Some (map_err pair_of_match tuples)
         else scan_patterns patterns response)"

text \<open>
  Lines 132 to 201. The function calls itself at line 197; that it returns is
  a theorem below, so the definition is a partial function: \<open>None\<close> is a call that does
  not return, \<open>Some (Inl e)\<close> a call that raises \<open>e\<close>, \<open>Some (Inr r)\<close> a call that
  returns \<open>r\<close>.
\<close>

partial_function (option) extract_word_scores :: "pylib \<Rightarrow> string \<Rightarrow> (pyerr + word_scores) option" where
  "extract_word_scores lib response =
     (case loads lib response of
        Some response_dict \<Rightarrow> Some (scores_of_value lib response_dict)
      | None \<Rightarrow>
          (case scan_patterns [tuple_paren, tuple_bracket, word_score_object] response of
             Some r \<Rightarrow> Some r
           | None \<Rightarrow>
               (case search json_object_pattern response of
                  None \<Rightarrow> Some (Inr [])
                | Some json_match \<Rightarrow>
                    (case group json_match 1 of
                       Inl e \<Rightarrow> Some (Inl e)
                     | Inr json_str \<Rightarrow>
                         (case loads lib json_str of
                            None \<Rightarrow> Some (Inr [])
                          | Some json_data \<Rightarrow>
                              (case py_in ''word_score_list'' json_data of
                                 Inl e \<Rightarrow> Some (Inl e)
                               | Inr found \<Rightarrow>
                                   if found then extract_word_scores lib json_str
                                   else Some (Inr [])))))))"

declare extract_word_scores.simps [code]

section \<open>A decoder for the examples\<close>

text \<open>
  The theorems below hold for every \<open>loads\<close>. To run the parser on concrete responses,
  this section gives one decoder: it reads the JSON texts made of objects, arrays,
  strings with two-character escapes, integers and the literals \<^verbatim>\<open>true\<close>,
  \<^verbatim>\<open>false\<close>, \<^verbatim>\<open>null\<close>, \<^verbatim>\<open>NaN\<close>, \<^verbatim>\<open>Infinity\<close>, \<^verbatim>\<open>-Infinity\<close>, as
  \<^verbatim>\<open>json.loads\<close> does. It has no value for a text with a number that has a fraction or
  an exponent, or with a \<^verbatim>\<open>\u\<close> escape; the examples have none.
\<close>

datatype tok = TLBrace | TRBrace | TLBrack | TRBrack | TColon | TComma | TVal json

datatype lstate = LIdle | LStr string | LEsc string | LWord string

definition json_space :: "char \<Rightarrow> bool" where
  "json_space c = (c \<in> set [CHR '' '', CHR 0x09, CHR 0x0A, CHR 0x0D])"

definition word_char :: "char \<Rightarrow> bool" where
  "word_char c = (let n = (of_char c :: nat) in
     (48 \<le> n \<and> n \<le> 57) \<or> (65 \<le> n \<and> n \<le> 90) \<or> (97 \<le> n \<and> n \<le> 122)
     \<or> c = CHR ''-'' \<or> c = CHR ''+'' \<or> c = CHR ''.'')"

definition punct :: "char \<Rightarrow> tok option" where
  "punct c =
     (if c = CHR ''{'' then Some TLBrace else if c = CHR ''}'' then Some TRBrace
      else if c = CHR ''['' then Some TLBrack else if c = CHR '']'' then Some TRBrack
      else if c = CHR '':'' then Some TColon else if c = CHR '','' then Some TComma
      else None)"

definition unescape :: "char \<Rightarrow> char option" where
  "unescape c =
     (if c = CHR 0x22 \<or> c = CHR 0x5C \<or> c = CHR ''/'' then Some c
      else if c = CHR ''b'' then Some (CHR 0x08) else if c = CHR ''f'' then Some (CHR 0x0C)
      else if c = CHR ''n'' then Some (CHR 0x0A) else if c = CHR ''r'' then Some (CHR 0x0D)
      else if c = CHR ''t'' then Some (CHR 0x09) else None)"

text \<open>A JSON integer: \<^verbatim>\<open>-?(0|[1-9][0-9]*)\<close>.\<close>

definition json_nat_lit :: "string \<Rightarrow> bool" where
  "json_nat_lit w = (w \<noteq> [] \<and> list_all py_isdigit w \<and> (hd w = CHR ''0'' \<longrightarrow> length w = 1))"

definition word_value :: "string \<Rightarrow> json option" where
  "word_value w =
     (if w = ''true'' then Some (JBool True) else if w = ''false'' then Some (JBool False)
      else if w = ''null'' then Some JNull else if w = ''NaN'' then Some (JFloat NaN)
      else if w = ''Infinity'' then Some (JFloat PosInf)
      else if w = ''-Infinity'' then Some (JFloat NegInf)
      else if json_nat_lit w then Some (JInt (dec_value w))
      else (case w of
              c # cs \<Rightarrow> if c = CHR ''-'' \<and> json_nat_lit cs then Some (JInt (- dec_value cs)) else None
            | [] \<Rightarrow> None))"

text \<open>The tokens of a text, last first; \<open>None\<close> when the text has a character no token has.\<close>

fun lex :: "string \<Rightarrow> lstate \<Rightarrow> tok list \<Rightarrow> tok list option" where
  "lex [] LIdle out = Some out"
| "lex [] (LWord w) out = map_option (\<lambda>v. TVal v # out) (word_value (rev w))"
| "lex [] (LStr a) out = None"
| "lex [] (LEsc a) out = None"
| "lex (c # cs) LIdle out =
     (if json_space c then lex cs LIdle out
      else if c = CHR 0x22 then lex cs (LStr []) out
      else (case punct c of
              Some t \<Rightarrow> lex cs LIdle (t # out)
            | None \<Rightarrow> if word_char c then lex cs (LWord [c]) out else None))"
| "lex (c # cs) (LStr a) out =
     (if c = CHR 0x22 then lex cs LIdle (TVal (JStr (rev a)) # out)
      else if c = CHR 0x5C then lex cs (LEsc a) out
      else if (of_char c :: nat) < 32 then None
      else lex cs (LStr (c # a)) out)"
| "lex (c # cs) (LEsc a) out =
     (case unescape c of Some e \<Rightarrow> lex cs (LStr (e # a)) out | None \<Rightarrow> None)"
| "lex (c # cs) (LWord w) out =
     (if word_char c then lex cs (LWord (c # w)) out
      else (case word_value (rev w) of
              None \<Rightarrow> None
            | Some v \<Rightarrow>
                if json_space c then lex cs LIdle (TVal v # out)
                else if c = CHR 0x22 then lex cs (LStr []) (TVal v # out)
                else (case punct c of Some t \<Rightarrow> lex cs LIdle (t # TVal v # out) | None \<Rightarrow> None)))"

text \<open>
  The containers under construction, innermost first: the elements of an array, last
  first; the items of an object and the key that waits for its value.
\<close>

datatype frame = FList "json list" | FDict "(string \<times> json) list" "string option"

datatype expect = XValue | XValueOrClose | XKey | XKeyOrClose | XColon | XCommaOrClose | XEnd

text \<open>A finished value goes into the innermost container, or is the result.\<close>

fun put :: "json \<Rightarrow> frame list \<Rightarrow> (frame list \<times> expect \<times> json option) option" where
  "put v [] = Some ([], XEnd, Some v)"
| "put v (FList xs # fs) = Some (FList (v # xs) # fs, XCommaOrClose, None)"
| "put v (FDict d (Some k) # fs) = Some (FDict (AList.update k v d) None # fs, XCommaOrClose, None)"
| "put v (FDict d None # fs) = None"

fun parse :: "tok list \<Rightarrow> frame list \<Rightarrow> expect \<Rightarrow> json option \<Rightarrow> json option" where
  "parse [] fs x res = (if x = XEnd \<and> fs = [] then res else None)"
| "parse (t # ts) fs x res =
     (case (x, t, fs) of
        (XColon, TColon, _) \<Rightarrow> parse ts fs XValue res
      | (XKey, TVal (JStr k), FDict d None # fs') \<Rightarrow> parse ts (FDict d (Some k) # fs') XColon res
      | (XKeyOrClose, TVal (JStr k), FDict d None # fs') \<Rightarrow>
          parse ts (FDict d (Some k) # fs') XColon res
      | (XKeyOrClose, TRBrace, FDict d None # fs') \<Rightarrow>
          (case put (JDict d) fs' of Some (fs'', x', r) \<Rightarrow> parse ts fs'' x' r | None \<Rightarrow> None)
      | (XCommaOrClose, TRBrace, FDict d None # fs') \<Rightarrow>
          (case put (JDict d) fs' of Some (fs'', x', r) \<Rightarrow> parse ts fs'' x' r | None \<Rightarrow> None)
      | (XCommaOrClose, TComma, FDict d None # fs') \<Rightarrow> parse ts fs XKey res
      | (XCommaOrClose, TRBrack, FList xs # fs') \<Rightarrow>
          (case put (JList (rev xs)) fs' of Some (fs'', x', r) \<Rightarrow> parse ts fs'' x' r | None \<Rightarrow> None)
      | (XCommaOrClose, TComma, FList xs # fs') \<Rightarrow> parse ts fs XValue res
      | (XValueOrClose, TRBrack, FList xs # fs') \<Rightarrow>
          (case put (JList (rev xs)) fs' of Some (fs'', x', r) \<Rightarrow> parse ts fs'' x' r | None \<Rightarrow> None)
      | (XValueOrClose, TVal v, _) \<Rightarrow>
          (case put v fs of Some (fs'', x', r) \<Rightarrow> parse ts fs'' x' r | None \<Rightarrow> None)
      | (XValueOrClose, TLBrack, _) \<Rightarrow> parse ts (FList [] # fs) XValueOrClose res
      | (XValueOrClose, TLBrace, _) \<Rightarrow> parse ts (FDict [] None # fs) XKeyOrClose res
      | (XValue, TVal v, _) \<Rightarrow>
          (case put v fs of Some (fs'', x', r) \<Rightarrow> parse ts fs'' x' r | None \<Rightarrow> None)
      | (XValue, TLBrack, _) \<Rightarrow> parse ts (FList [] # fs) XValueOrClose res
      | (XValue, TLBrace, _) \<Rightarrow> parse ts (FDict [] None # fs) XKeyOrClose res
      | _ \<Rightarrow> None)"

definition json_decode :: "string \<Rightarrow> json option" where
  "json_decode s =
     (case lex s LIdle [] of None \<Rightarrow> None | Some ts \<Rightarrow> parse (rev ts) [] XValue None)"

text \<open>
  The library of the examples. None of them applies \<^verbatim>\<open>str\<close> to a float, a list or a
  dict, so \<open>repr\<close> is never called.
\<close>

definition example_lib :: pylib where
  "example_lib = \<lparr> loads = json_decode, repr = (\<lambda>v. []) \<rparr>"

section \<open>The run driver\<close>

text \<open>
  Lines 204 to 284. The driver reads the command line, loads the model, loads the
  dataset, samples it, generates batch by batch and writes the records. What it asks of
  its environment is a parameter of the model: the dataset that \<^verbatim>\<open>json.load\<close> reads
  from a path (\<open>None\<close> when reading or decoding raises), the positions that
  \<^verbatim>\<open>random.sample\<close> picks in a population of a given size, the responses of
  \<^verbatim>\<open>process_batch\<close> for a batch (or the exception it raises), and whether writing a
  file at a path succeeds. Loading the model and the printing are left out.
\<close>

record world =
  read_data :: "string \<Rightarrow> json option"
  rng :: "nat \<Rightarrow> nat \<Rightarrow> nat list"
  generate :: "json list \<Rightarrow> pyerr + string list"
  writable :: "string \<Rightarrow> bool"

text \<open>\<^verbatim>\<open>len(val_data)\<close>\<close>

fun py_len :: "json \<Rightarrow> pyerr + nat" where
  "py_len (JDict d) = Inr (length d)"
| "py_len (JList xs) = Inr (length xs)"
| "py_len (JStr s) = Inr (length s)"
| "py_len _ = Inl TypeError"

text \<open>
  \<^verbatim>\<open>random.sample(population, k)\<close>: \<^verbatim>\<open>ValueError\<close> when \<open>k\<close> is negative or
  larger than the population; else the elements at the positions picked.
\<close>

definition random_sample :: "world \<Rightarrow> 'a list \<Rightarrow> int \<Rightarrow> pyerr + 'a list" where
  "random_sample w population k =
     (if k < 0 \<or> int (length population) < k then Inl ValueError
      else map_err (\<lambda>p. if p < length population then Inr (population ! p) else Inl IndexError)
             (rng w (length population) (nat k)))"

text \<open>Lines 227 to 232.\<close>

definition sample_data :: "world \<Rightarrow> json \<Rightarrow> int \<Rightarrow> pyerr + json list" where
  "sample_data w val_data max_samples =
     (case val_data of
        JDict d \<Rightarrow>
          bind_err (random_sample w (map fst d) (min max_samples (int (length d))))
            (\<lambda>sample_keys. map_err (\<lambda>key. py_item val_data key) sample_keys)
      | _ \<Rightarrow>
          bind_err (py_len val_data) (\<lambda>n.
          bind_err (random_sample w [0..<n] (min max_samples (int n)))
            (\<lambda>sample_indices. map_err (\<lambda>i. py_index val_data i) sample_indices)))"

text \<open>\<^verbatim>\<open>range(0, n, step)\<close>\<close>

definition range_from0 :: "nat \<Rightarrow> int \<Rightarrow> pyerr + nat list" where
  "range_from0 n step =
     (if step = 0 then Inl ValueError
      else if step < 0 then Inr []
      else Inr (map (\<lambda>k. k * nat step) [0..<(n + nat step - 1) div nat step]))"

text \<open>
  \<^verbatim>\<open>v[:k]\<close>: defined on a string and on a list. On a mapping the exception is
  \<^verbatim>\<open>TypeError\<close> up to Python 3.11 and \<^verbatim>\<open>KeyError\<close> after; the model has the
  former.
\<close>

fun py_sliceable :: "json \<Rightarrow> pyerr + unit" where
  "py_sliceable (JStr s) = Inr ()"
| "py_sliceable (JList xs) = Inr ()"
| "py_sliceable _ = Inl TypeError"

text \<open>
  Lines 248 to 250: the values the three prints read. The block of lines 252 to 262
  calls \<^verbatim>\<open>extract_word_scores\<close> and prints under \<^verbatim>\<open>except Exception\<close>; it
  returns, by the theorem on that function, and changes nothing.
\<close>

definition first_prediction :: "json list \<Rightarrow> string list \<Rightarrow> pyerr + unit" where
  "first_prediction batch_data responses =
     bind_err (case batch_data of [] \<Rightarrow> Inl IndexError | data # _ \<Rightarrow> Inr data) (\<lambda>data.
     bind_err (py_item data ''post'') (\<lambda>post.
     bind_err (py_sliceable post) (\<lambda>_.
     bind_err (py_item data ''generated_summary'') (\<lambda>_.
     (case responses of [] \<Rightarrow> Inl IndexError | _ # _ \<Rightarrow> Inr ())))))"

text \<open>Lines 264 to 270: the records of one batch, \<open>i\<close> the index of its first item.\<close>

definition batch_records :: "nat \<Rightarrow> json list \<Rightarrow> string list \<Rightarrow> pyerr + json list" where
  "batch_records i batch_data responses =
     map_err (\<lambda>(j, data, response).
        bind_err (py_item data ''post'') (\<lambda>post.
        bind_err (py_item data ''generated_summary'') (\<lambda>summary.
        Inr (JDict [(''index'', JInt (int (i + j))), (''original_post'', post),
                    (''generated_summary'', summary), (''model_response'', JStr response)]))))
       (zip [0..<length batch_data] (zip batch_data responses))"

text \<open>Lines 241 to 270: the loop over the start indexes of the batches.\<close>

fun for_batches :: "world \<Rightarrow> nat \<Rightarrow> json list \<Rightarrow> nat list \<Rightarrow> json list \<Rightarrow> pyerr + json list" where
  "for_batches w bs sampled_data [] results = Inr results"
| "for_batches w bs sampled_data (i # starts) results =
     (let batch_data = take bs (drop i sampled_data) in
      case generate w batch_data of
        Inl e \<Rightarrow> Inl e
      | Inr responses \<Rightarrow>
          (case first_prediction batch_data responses of
             Inl e \<Rightarrow> Inl e
           | Inr _ \<Rightarrow>
               (case batch_records i batch_data responses of
                  Inl e \<Rightarrow> Inl e
                | Inr records \<Rightarrow> for_batches w bs sampled_data starts (results @ records))))"

definition run_batches :: "world \<Rightarrow> int \<Rightarrow> json list \<Rightarrow> pyerr + json list" where
  "run_batches w batch_size sampled_data =
     bind_err (range_from0 (length sampled_data) batch_size) (\<lambda>starts.
       for_batches w (nat batch_size) sampled_data starts [])"

text \<open>
  Lines 272 to 284: the paths tried, the files written and the messages printed. A
  write succeeds as a whole or fails as a whole.
\<close>

datatype save_msg = Saved string | SaveError | SavedBackup string | BackupFailed

record report =
  attempts :: "string list"
  files :: "(string \<times> json) list"
  messages :: "save_msg list"

definition backup_path :: string where
  "backup_path = ''./evaluation_results_backup.json''"

definition save_results :: "world \<Rightarrow> string \<Rightarrow> json \<Rightarrow> report" where
  "save_results w path results =
     (if writable w path then
        \<lparr> attempts = [path], files = [(path, results)], messages = [Saved path] \<rparr>
      else if writable w backup_path then
        \<lparr> attempts = [path, backup_path], files = [(backup_path, results)],
          messages = [SaveError, SavedBackup backup_path] \<rparr>
      else
        \<lparr> attempts = [path, backup_path], files = [], messages = [SaveError, BackupFailed] \<rparr>)"

text \<open>
  How a run ends: the two early returns, an exception that leaves \<^verbatim>\<open>main\<close>, or the
  normal end after the write stage.
\<close>

datatype outcome = LoadFailed | SamplingFailed | Raised pyerr | Done report

text \<open>
  Lines 212 to 223: \<^verbatim>\<open>len\<close> of the dataset is taken, and the first key of a mapping;
  \<^verbatim>\<open>next(iter(val_data))\<close> raises \<^verbatim>\<open>StopIteration\<close> on an empty mapping. Every
  exception there ends the run.
\<close>

definition load_data :: "world \<Rightarrow> string \<Rightarrow> json option" where
  "load_data w path =
     (case read_data w path of
        None \<Rightarrow> None
      | Some val_data \<Rightarrow>
          (case py_len val_data of
             Inl e \<Rightarrow> None
           | Inr n \<Rightarrow> (case val_data of JDict [] \<Rightarrow> None | _ \<Rightarrow> Some val_data)))"

text \<open>The command-line arguments the driver itself reads.\<close>

record args =
  data_path :: string
  output_path :: string
  batch_size :: int
  max_samples :: int

definition main :: "world \<Rightarrow> args \<Rightarrow> outcome" where
  "main w a =
     (case load_data w (data_path a) of
        None \<Rightarrow> LoadFailed
      | Some val_data \<Rightarrow>
          (case sample_data w val_data (max_samples a) of
             Inl e \<Rightarrow> SamplingFailed
           | Inr sampled_data \<Rightarrow>
               (case run_batches w (batch_size a) sampled_data of
                  Inl e \<Rightarrow> Raised e
                | Inr results \<Rightarrow> Done (save_results w (output_path a) (JList results)))))"

section \<open>Notions used in the statements\<close>











definition field :: "string \<Rightarrow> json \<Rightarrow> json" where
  "field k v = (case py_item v k of Inr x \<Rightarrow> x | Inl e \<Rightarrow> JNull)"

text \<open>The EvaluationRecord of the sample processed at position \<open>j\<close>.\<close>

definition evaluation_record :: "nat \<Rightarrow> json \<Rightarrow> string \<Rightarrow> json" where
  "evaluation_record j sample response =
     JDict [(''index'', JInt (int j)), (''original_post'', field ''post'' sample),
            (''generated_summary'', field ''generated_summary'' sample),
            (''model_response'', JStr response)]"



section \<open>Example responses\<close>








definition embedded_response :: string where
  \<open>embedded_response = ''Here: {"word_score_list": [{"token": "bad", "value": "-1"}]} done''\<close>

definition embedded_object :: string where
  \<open>embedded_object = ''{"word_score_list": [{"token": "bad", "value": "-1"}]}''\<close>

definition bare_list_response :: string where
  \<open>bare_list_response = ''["good", 1]''\<close>

definition empty_list_response :: string where
  \<open>empty_list_response = ''[]''\<close>

definition feedback_object_response :: string where
  \<open>feedback_object_response = ''{"textual_feedback": "Too short."}''\<close>

definition feedback_prose_response :: string where
  \<open>feedback_prose_response = ''Sure! "textual_feedback" : "Too short.", more''\<close>







section \<open>Example runs\<close>

definition sample1 :: json where
  "sample1 = JDict [(''post'', JStr ''first post''), (''generated_summary'', JStr ''one'')]"

definition sample2 :: json where
  "sample2 = JDict [(''post'', JStr ''second post''), (''generated_summary'', JStr ''two'')]"

definition canned :: "json \<Rightarrow> string" where
  "canned v = (if v = sample1 then ''canned one'' else ''canned two'')"

text \<open>
  A world with a dataset of two samples, a generator with canned responses, and a choice
  of positions that takes the last \<open>k\<close> in reverse order; \<open>ok\<close> are the writable paths.
\<close>

definition example_world :: "string list \<Rightarrow> world" where
  "example_world ok =
     \<lparr> read_data = (\<lambda>path. Some (JList [sample1, sample2])),
       rng = (\<lambda>n k. rev [n - k..<n]),
       generate = (\<lambda>batch. Inr (map canned batch)),
       writable = (\<lambda>path. path \<in> set ok) \<rparr>"

definition example_args :: "int \<Rightarrow> args" where
  "example_args m =
     \<lparr> data_path = ''data.json'', output_path = ''out.json'', batch_size = 24, max_samples = m \<rparr>"

section \<open>Properties\<close>

subsection \<open>Exceptions as values\<close>


subsection \<open>What the patterns capture\<close>


lemma run_caps_length:
  "run r s st caps = Some (caps', rest) \<Longrightarrow> length caps' = length caps + count_list r GClose"
  by (induction r s st caps rule: run.induct)
     (auto split: if_splits option.splits)



subsection \<open>Integer texts\<close>

lemma digit_not_special:
  "py_isdigit c \<Longrightarrow> c \<noteq> CHR ''_'' \<and> c \<noteq> CHR ''-'' \<and> c \<noteq> CHR ''+'' \<and> \<not> py_isspace c"
  by (auto simp: py_isdigit_def py_isspace_def Let_def)


lemma filter_digits: "list_all py_isdigit ds \<Longrightarrow> filter (\<lambda>x. x \<noteq> CHR ''_'') ds = ds"
  by (induction ds) (auto dest: digit_not_special)











subsection \<open>Search and findall return matches\<close>

lemma search_run: "search r s = Some m \<Longrightarrow> \<exists>t rest. run r t [] [] = Some (m, rest)"
proof (induction s)
  case Nil
  then obtain b where "run r [] [] [] = Some (m, b)" by (cases "run r [] [] []") auto
  then show ?case by blast
next
  case (Cons x xs)
  show ?case
  proof (cases "run r (x # xs) [] []")
    case None
    with Cons show ?thesis by simp
  next
    case (Some a)
    obtain c b where "a = (c, b)" by (cases a)
    with Some Cons.prems have "run r (x # xs) [] [] = Some (m, b)" by simp
    then show ?thesis by blast
  qed
qed



subsection \<open>The tuple patterns never make \<^verbatim>\<open>int\<close> raise\<close>




lemma json_object_match:
  "search json_object_pattern s = Some m \<Longrightarrow> \<exists>js. m = [js]"
proof -
  assume "search json_object_pattern s = Some m"
  from search_run [OF this] obtain t rest where "run json_object_pattern t [] [] = Some (m, rest)"
    by blast
  from run_caps_length [OF this] have "length m = 1"
    by (simp add: json_object_pattern_def lits_def)
  then show ?thesis by (cases m) auto
qed

lemma feedback_match:
  "search feedback_pattern s = Some m \<Longrightarrow> \<exists>g. m = [g]"
proof -
  assume "search feedback_pattern s = Some m"
  from search_run [OF this] obtain t rest where "run feedback_pattern t [] [] = Some (m, rest)"
    by blast
  from run_caps_length [OF this] have "length m = 1"
    by (simp add: feedback_pattern_def lits_def spaces_def)
  then show ?thesis by (cases m) auto
qed

subsection \<open>The feedback text\<close>

text \<open>
  C7, as amended. When the response decodes to a JSON object, the result is the value
  of its \<^verbatim>\<open>textual_feedback\<close> key, or the empty string when the key is absent. When
  it decodes to any other JSON value, the call raises \<^verbatim>\<open>AttributeError\<close>. When it
  does not decode, the result is the group of the first match of the feedback pattern
  in the response, or the empty string when there is no match.
\<close>

theorem textual_feedback_cases:
  "(loads lib s = Some (JDict d) \<longrightarrow>
      extract_textual_feedback lib s =
        Inr (case map_of d ''textual_feedback'' of Some v \<Rightarrow> v | None \<Rightarrow> JStr []))
   \<and> (loads lib s = Some v \<and> (\<forall>d. v \<noteq> JDict d) \<longrightarrow>
      extract_textual_feedback lib s = Inl AttributeError)
   \<and> (loads lib s = None \<longrightarrow>
      extract_textual_feedback lib s =
        Inr (JStr (case search feedback_pattern s of Some m \<Rightarrow> hd m | None \<Rightarrow> [])))"
proof (intro conjI impI)
  assume "loads lib s = Some (JDict d)"
  then show "extract_textual_feedback lib s =
      Inr (case map_of d ''textual_feedback'' of Some v \<Rightarrow> v | None \<Rightarrow> JStr [])"
    by (simp add: extract_textual_feedback_def)
next
  assume "loads lib s = Some v \<and> (\<forall>d. v \<noteq> JDict d)"
  then show "extract_textual_feedback lib s = Inl AttributeError"
    by (cases v) (simp_all add: extract_textual_feedback_def)
next
  assume none: "loads lib s = None"
  show "extract_textual_feedback lib s =
      Inr (JStr (case search feedback_pattern s of Some m \<Rightarrow> hd m | None \<Rightarrow> []))"
  proof (cases "search feedback_pattern s")
    case None
    with none show ?thesis by (simp add: extract_textual_feedback_def)
  next
    case (Some m)
    from feedback_match [OF this] obtain g where "m = [g]" by blast
    with none Some show ?thesis
      by (simp add: extract_textual_feedback_def group_def bind_err_def)
  qed
qed

theorem textual_feedback_cases_witness:
  "loads example_lib feedback_object_response
     = Some (JDict [(''textual_feedback'', JStr ''Too short.'')])
   \<and> extract_textual_feedback example_lib feedback_object_response = Inr (JStr ''Too short.'')
   \<and> loads example_lib bare_list_response = Some (JList [JStr ''good'', JInt 1])
   \<and> extract_textual_feedback example_lib bare_list_response = Inl AttributeError
   \<and> loads example_lib feedback_prose_response = None
   \<and> extract_textual_feedback example_lib feedback_prose_response = Inr (JStr ''Too short.'')"
proof -
  have a: "loads example_lib feedback_object_response
      = Some (JDict [(''textual_feedback'', JStr ''Too short.'')])" by code_simp
  have b: "loads example_lib bare_list_response = Some (JList [JStr ''good'', JInt 1])"
    by code_simp
  have c: "loads example_lib feedback_prose_response = None" by code_simp
  have d: "search feedback_pattern feedback_prose_response = Some [''Too short.'']" by code_simp
  from a textual_feedback_cases
    [of example_lib feedback_object_response "[(''textual_feedback'', JStr ''Too short.'')]"]
  have "extract_textual_feedback example_lib feedback_object_response = Inr (JStr ''Too short.'')"
    by simp
  moreover from b textual_feedback_cases [of example_lib bare_list_response _ "JList [JStr ''good'', JInt 1]"]
  have "extract_textual_feedback example_lib bare_list_response = Inl AttributeError" by simp
  moreover from c d textual_feedback_cases [of example_lib feedback_prose_response]
  have "extract_textual_feedback example_lib feedback_prose_response = Inr (JStr ''Too short.'')"
    by simp
  ultimately show ?thesis using a b c by simp
qed

text \<open>
  The claim as stated fails on a response that is valid JSON and not an object: on
  \<^verbatim>\<open>[]\<close> the function raises.
\<close>

theorem textual_feedback_non_object:
  "loads example_lib empty_list_response = Some (JList [])
   \<and> extract_textual_feedback example_lib empty_list_response = Inl AttributeError"
  by code_simp

subsection \<open>A word-score list that is a string\<close>




subsection \<open>A response that is not JSON\<close>



subsection \<open>The call returns\<close>

lemma extract_decoded:
  "loads lib s = Some v \<Longrightarrow> extract_word_scores lib s = Some (scores_of_value lib v)"
  by (subst extract_word_scores.simps) simp



text \<open>The \<^verbatim>\<open>except\<close> branch, with the call of line 197 resolved.\<close>

lemma extract_not_decoded:
  assumes "loads lib s = None"
  shows "extract_word_scores lib s =
     (case scan_patterns [tuple_paren, tuple_bracket, word_score_object] s of
        Some r \<Rightarrow> Some r
      | None \<Rightarrow>
          (case search json_object_pattern s of
             None \<Rightarrow> Some (Inr [])
           | Some m \<Rightarrow>
               (case loads lib (hd m) of
                  None \<Rightarrow> Some (Inr [])
                | Some json_data \<Rightarrow>
                    (case py_in ''word_score_list'' json_data of
                       Inl e \<Rightarrow> Some (Inl e)
                     | Inr found \<Rightarrow>
                         if found then Some (scores_of_value lib json_data) else Some (Inr [])))))"
proof (cases "scan_patterns [tuple_paren, tuple_bracket, word_score_object] s")
  case (Some r)
  with assms show ?thesis by (subst extract_word_scores.simps) (simp only: option.case)
next
  case scan: None
  show ?thesis
  proof (cases "search json_object_pattern s")
    case None
    with assms scan show ?thesis by (subst extract_word_scores.simps) (simp only: option.case)
  next
    case (Some m)
    from json_object_match [OF this] obtain js where m: "m = [js]" by blast
    then have g: "group m 1 = Inr js" "hd m = js" by (simp_all add: group_def)
    show ?thesis
    proof (cases "loads lib js")
      case None
      with assms scan Some g show ?thesis
        by (subst extract_word_scores.simps) (simp only: option.case sum.case)
    next
      case v: (Some v)
      show ?thesis
      proof (cases "py_in ''word_score_list'' v")
        case (Inl e)
        with assms scan Some g v show ?thesis
          by (subst extract_word_scores.simps) (simp only: option.case sum.case)
      next
        case (Inr found)
        with assms scan Some g v extract_decoded [OF v] show ?thesis
          by (subst extract_word_scores.simps) (simp only: option.case sum.case)
      qed
    qed
  qed
qed

text \<open>
  C10. Every call returns. A call on a text that decodes is the body of the
  \<^verbatim>\<open>try\<close>, which does not call the function; the call of line 197 is made on
  a text that has just been decoded, so it is such a call and the function calls itself
  at most once.
\<close>

theorem extract_word_scores_returns:
  "(\<exists>r. extract_word_scores lib s = Some r)
   \<and> (\<forall>v. loads lib js = Some v \<longrightarrow> extract_word_scores lib js = Some (scores_of_value lib v))"
proof
  show "\<exists>r. extract_word_scores lib s = Some r"
  proof (cases "loads lib s")
    case None
    then show ?thesis
      by (simp add: extract_not_decoded split: option.splits sum.splits)
  next
    case (Some v)
    then show ?thesis by (simp add: extract_decoded)
  qed
  show "\<forall>v. loads lib js = Some v \<longrightarrow> extract_word_scores lib js = Some (scores_of_value lib v)"
    by (simp add: extract_decoded)
qed

theorem extract_word_scores_returns_witness:
  "loads example_lib embedded_response = None
   \<and> search json_object_pattern embedded_response = Some [embedded_object]
   \<and> loads example_lib embedded_object
       = Some (JDict [(''word_score_list'',
            JList [JDict [(''token'', JStr ''bad''), (''value'', JStr ''-1'')]])])
   \<and> extract_word_scores example_lib embedded_response = Some (Inr [(JStr ''bad'', JInt (- 1))])"
proof -
  let ?v = "JDict [(''word_score_list'',
            JList [JDict [(''token'', JStr ''bad''), (''value'', JStr ''-1'')]])]"
  have a: "loads example_lib embedded_response = None" by code_simp
  have b: "search json_object_pattern embedded_response = Some [embedded_object]" by code_simp
  have c: "loads example_lib embedded_object = Some ?v" by code_simp
  have d: "scan_patterns [tuple_paren, tuple_bracket, word_score_object] embedded_response = None"
    by code_simp
  have e: "scores_of_value example_lib ?v = Inr [(JStr ''bad'', JInt (- 1))]" by code_simp
  from extract_word_scores_returns [of example_lib embedded_response embedded_object] c
  have "extract_word_scores example_lib embedded_object = Some (scores_of_value example_lib ?v)"
    by simp
  with a b c d e have "extract_word_scores example_lib embedded_response
      = Some (Inr [(JStr ''bad'', JInt (- 1))])"
    by (subst extract_word_scores.simps) (simp add: group_def)
  with a b c show ?thesis by simp
qed

subsection \<open>Which exceptions are caught\<close>




subsection \<open>A word-score list of mappings\<close>






subsection \<open>Scores given as text\<close>











subsection \<open>The write stage\<close>

text \<open>
  C9. The write stage tries the configured path; when that fails it tries the backup
  path, once; when that fails too it prints the failure. It raises nothing: a run that
  reaches the write stage ends normally.
\<close>

theorem save_retries_once:
  "(writable w path \<longrightarrow>
      attempts (save_results w path r) = [path] \<and> files (save_results w path r) = [(path, r)])
   \<and> (\<not> writable w path \<and> writable w backup_path \<longrightarrow>
      attempts (save_results w path r) = [path, backup_path]
      \<and> files (save_results w path r) = [(backup_path, r)])
   \<and> (\<not> writable w path \<and> \<not> writable w backup_path \<longrightarrow>
      attempts (save_results w path r) = [path, backup_path]
      \<and> files (save_results w path r) = []
      \<and> messages (save_results w path r) = [SaveError, BackupFailed])
   \<and> (run_batches w (batch_size a) sampled = Inr results
      \<and> sample_data w val_data (max_samples a) = Inr sampled
      \<and> load_data w (data_path a) = Some val_data \<longrightarrow>
      main w a = Done (save_results w (output_path a) (JList results)))"
  by (simp add: save_results_def main_def)

theorem save_retries_once_witness:
  "\<not> writable (example_world []) ''out.json'' \<and> \<not> writable (example_world []) backup_path
   \<and> main (example_world []) (example_args 2)
     = Done \<lparr> attempts = [''out.json'', backup_path], files = [], messages = [SaveError, BackupFailed] \<rparr>
   \<and> writable (example_world [backup_path]) backup_path
   \<and> files (save_results (example_world [backup_path]) ''out.json'' JNull) = [(backup_path, JNull)]
   \<and> writable (example_world [''out.json'']) ''out.json''
   \<and> attempts (save_results (example_world [''out.json'']) ''out.json'' JNull) = [''out.json'']"
proof -
  let ?w = "example_world []"
  let ?rs = "[evaluation_record 0 sample2 ''canned two'', evaluation_record 1 sample1 ''canned one'']"
  have a: "\<not> writable ?w ''out.json''" "\<not> writable ?w backup_path" by code_simp+
  have b: "load_data ?w (data_path (example_args 2)) = Some (JList [sample1, sample2])"
    by code_simp
  have c: "sample_data ?w (JList [sample1, sample2]) (max_samples (example_args 2))
      = Inr [sample2, sample1]" by code_simp
  have d: "run_batches ?w (batch_size (example_args 2)) [sample2, sample1] = Inr ?rs"
    by code_simp
  have e: "output_path (example_args 2) = ''out.json''" by code_simp
  have f: "writable (example_world [backup_path]) backup_path"
    "\<not> writable (example_world [backup_path]) ''out.json''"
    "writable (example_world [''out.json'']) ''out.json''" by code_simp+
  from a b c d e save_retries_once [of ?w "''out.json''" "JList ?rs" "example_args 2"
      "[sample2, sample1]" ?rs "JList [sample1, sample2]"]
  have "main ?w (example_args 2) = Done \<lparr> attempts = [''out.json'', backup_path], files = [],
      messages = [SaveError, BackupFailed] \<rparr>"
    by (simp add: save_results_def)
  moreover from f save_retries_once [of "example_world [backup_path]" "''out.json''" JNull]
  have "files (save_results (example_world [backup_path]) ''out.json'' JNull) = [(backup_path, JNull)]"
    by simp
  moreover from f save_retries_once [of "example_world [''out.json'']" "''out.json''" JNull]
  have "attempts (save_results (example_world [''out.json'']) ''out.json'' JNull) = [''out.json'']"
    by simp
  ultimately show ?thesis using a f by simp
qed

subsection \<open>Sampling\<close>





subsection \<open>Batches\<close>






subsection \<open>The records of a run\<close>









end
